theory Spec2Isabelle
  imports Complex_Main
begin

section \<open>The local docker model server runner\<close>

text \<open>
  A shallow embedding of
  \<^verbatim>\<open>tfx/components/infra_validator/model_server_runners/local_docker_runner.py\<close>:
  the path parser \<^verbatim>\<open>_parse_model_path\<close> and the class \<^verbatim>\<open>LocalDockerRunner\<close>
  with its methods \<^verbatim>\<open>GetEndpoint\<close>, \<^verbatim>\<open>Start\<close>, \<^verbatim>\<open>WaitUntilRunning\<close> and \<^verbatim>\<open>Stop\<close>.

  Python strings are lists of code points (the type \<open>pystr\<close>).
  Exceptions are values of the type \<open>exn\<close>: \<open>DockerError\<close> stands for whatever the docker
  client raises when the engine fails, \<open>OSError\<close> for a failing socket call. A method
  returns \<open>exn + 'a\<close> together with the object and the outside world as it has left them.
\<close>

subsection \<open>Exceptions\<close>

datatype exn =
    AssertionError
  | ValueError
  | NotImplementedError
  | OSError
  | JobAborted
  | DeadlineExceeded
  | DockerError

subsection \<open>Strings\<close>

text \<open>
  A Python string is a sequence of Unicode code points: a list of naturals. \<open>cps\<close> embeds
  a literal of this theory (whose characters are the code points below 256).
\<close>

type_synonym pystr = "nat list"

definition cps :: "string \<Rightarrow> pystr" where
  "cps s = map of_char s"

subsection \<open>Paths: the library functions the parser calls\<close>

text \<open>
  \<^verbatim>\<open>os.path.split\<close> on a POSIX host:
  \<^verbatim>\<open>
    i = p.rfind('/') + 1
    head, tail = p[:i], p[i:]
    if head and head != sep*len(head):
        head = head.rstrip(sep)
    return head, tail
  \<close>
\<close>

definition sep :: nat where
  "sep = 47"

definition rstrip_sep :: "pystr \<Rightarrow> pystr" where
  "rstrip_sep s = rev (dropWhile (\<lambda>c. c = sep) (rev s))"

definition path_tail :: "pystr \<Rightarrow> pystr" where
  \<comment> \<open>\<^verbatim>\<open>p[p.rfind('/') + 1:]\<close>\<close>
  "path_tail p = rev (takeWhile (\<lambda>c. c \<noteq> sep) (rev p))"

definition path_head :: "pystr \<Rightarrow> pystr" where
  \<comment> \<open>\<^verbatim>\<open>p[:p.rfind('/') + 1]\<close>\<close>
  "path_head p = rev (dropWhile (\<lambda>c. c \<noteq> sep) (rev p))"

definition split_path :: "pystr \<Rightarrow> pystr \<times> pystr" where
  "split_path p =
     (let head = path_head p; tail = path_tail p
      in (if head \<noteq> [] \<and> head \<noteq> replicate (length head) sep
          then rstrip_sep head else head, tail))"

text \<open>
  \<^verbatim>\<open>os.path.join\<close> on a POSIX host, one component at a time:
  \<^verbatim>\<open>
    if b.startswith(sep):               path = b
    elif not path or path.endswith(sep): path += b
    else:                                path += sep + b
  \<close>
\<close>

definition join_step :: "pystr \<Rightarrow> pystr \<Rightarrow> pystr" where
  "join_step path b =
     (if b \<noteq> [] \<and> hd b = sep then b
      else if path = [] \<or> last path = sep then path @ b
      else path @ [sep] @ b)"

definition join_path :: "pystr \<Rightarrow> pystr list \<Rightarrow> pystr" where
  "join_path a ps = foldl join_step a ps"

subsection \<open>Digits: \<^verbatim>\<open>str.isdigit\<close> and \<^verbatim>\<open>int\<close>\<close>

text \<open>
  Both functions read the interpreter's Unicode database, which is not part of the
  repository and grows with every Unicode version. Below code point 128 it is fixed: the
  only digits are \<^verbatim>\<open>0\<close> to \<^verbatim>\<open>9\<close> (code points 48 to 57). From 128 on it is a
  parameter, with two tables:
  \<^item> \<open>decimal_above c\<close>: the value of \<open>c\<close> when it is a decimal digit (category Nd), such as
    the Arabic-Indic digit three, code point 1635, of value 3;
  \<^item> \<open>digit_above c\<close>: \<open>c\<close> is a digit that is not a decimal digit, such as the superscript
    two, code point 178.
\<close>

record unicode_db =
  decimal_above :: "nat \<Rightarrow> nat option"
  digit_above :: "nat \<Rightarrow> bool"

definition decimal_value :: "unicode_db \<Rightarrow> nat \<Rightarrow> nat option" where
  "decimal_value U c =
     (if 48 \<le> c \<and> c \<le> 57 then Some (c - 48)
      else if c < 128 then None
      else decimal_above U c)"

definition is_decimal :: "unicode_db \<Rightarrow> nat \<Rightarrow> bool" where
  "is_decimal U c = (decimal_value U c \<noteq> None)"

text \<open>
  \<^verbatim>\<open>str.isdigit\<close>: at least one character, and every character a digit, decimal or not.
\<close>

definition isdigit_char :: "unicode_db \<Rightarrow> nat \<Rightarrow> bool" where
  "isdigit_char U c = (is_decimal U c \<or> (128 \<le> c \<and> digit_above U c))"

definition isdigit :: "unicode_db \<Rightarrow> pystr \<Rightarrow> bool" where
  "isdigit U s = (s \<noteq> [] \<and> list_all (isdigit_char U) s)"

text \<open>
  \<^verbatim>\<open>int(s)\<close> for a string that has passed \<^verbatim>\<open>isdigit\<close> (so it holds no sign, blank or
  underscore): the value in base ten when every character is a decimal digit, of any
  script; a digit that is not decimal makes \<^verbatim>\<open>int\<close> raise \<^verbatim>\<open>ValueError\<close>.
\<close>

definition digit_val :: "unicode_db \<Rightarrow> nat \<Rightarrow> int" where
  "digit_val U c = (case decimal_value U c of Some d \<Rightarrow> int d | None \<Rightarrow> 0)"

definition int_of_str :: "unicode_db \<Rightarrow> pystr \<Rightarrow> exn + int" where
  "int_of_str U s =
     (if list_all (is_decimal U) s then Inr (foldl (\<lambda>a c. 10 * a + digit_val U c) 0 s)
      else Inl ValueError)"

text \<open>\<^verbatim>\<open>str(n)\<close> for an integer \<open>n\<close>: the decimal rendering, without leading zeros.\<close>

definition digit_char :: "nat \<Rightarrow> nat" where
  "digit_char d = 48 + d"

fun str_nat :: "nat \<Rightarrow> pystr" where
  "str_nat n = (if n < 10 then [digit_char n] else str_nat (n div 10) @ [digit_char (n mod 10)])"

declare str_nat.simps [simp del]

definition str_int :: "int \<Rightarrow> pystr" where
  "str_int i = (if i < 0 then 45 # str_nat (nat (- i)) else str_nat (nat i))"

subsection \<open>The path parser\<close>

text \<open>
  \<^verbatim>\<open>
  def _parse_model_path(model_path):
    model_path, version = os.path.split(model_path)
    if not version.isdigit():
      raise ValueError(...)
    base_path, model_name = os.path.split(model_path)
    return base_path, model_name, int(version)
  \<close>
\<close>

definition parse_model_path :: "unicode_db \<Rightarrow> pystr \<Rightarrow> exn + (pystr \<times> pystr \<times> int)" where
  "parse_model_path U model_path =
     (let (model_path', version) = split_path model_path
      in if \<not> isdigit U version then Inl ValueError
         else let (base_path, model_name) = split_path model_path'
              in case int_of_str U version of
                   Inl e \<Rightarrow> Inl e
                 | Inr v \<Rightarrow> Inr (base_path, model_name, v))"

subsection \<open>The outside world\<close>

text \<open>
  The runner talks to the clock, the operating system and the docker engine. Their answers
  are scripted in an \<open>env\<close>; what the runner has done to them is counted in a \<open>world\<close>.
  The \<open>n\<close>-th call of \<^verbatim>\<open>time.time()\<close> returns \<open>clock e n\<close>, the \<open>n\<close>-th call of
  \<^verbatim>\<open>container.reload()\<close> has the outcome \<open>reload_script e n\<close> (calls are counted
  from 0). Nothing is assumed of the clock: it may stand still or run backwards.
\<close>

type_synonym container = nat

datatype reload_result =
    Status string  \<comment> \<open>\<^verbatim>\<open>reload()\<close> returns, \<^verbatim>\<open>container.status\<close> is this string\<close>
  | NotFound       \<comment> \<open>\<^verbatim>\<open>reload()\<close> raises \<^verbatim>\<open>docker_errors.NotFound\<close>\<close>
  | ReloadRaises   \<comment> \<open>\<^verbatim>\<open>reload()\<close> raises any other engine error\<close>

text \<open>
  The keyword arguments the runner passes to \<^verbatim>\<open>MakeDockerRunParams\<close>; that method
  is not part of this file, so the arguments stand for the run parameters it builds.
\<close>

record run_params =
  host_port :: nat
  host_model_path :: "pystr option"
  model_base_path_arg :: "pystr option"

record env =
  clock :: "nat \<Rightarrow> real"
  reload_script :: "nat \<Rightarrow> reload_result"
  free_port :: "nat option"                      \<comment> \<open>\<open>None\<close>: the socket calls raise\<close>
  path_exists :: "pystr \<Rightarrow> bool"                 \<comment> \<open>\<^verbatim>\<open>os.path.exists\<close>\<close>
  run_result :: "run_params \<Rightarrow> container option"
    \<comment> \<open>\<^verbatim>\<open>docker.containers.run\<close>; \<open>None\<close>: the engine raises\<close>
  stop_raises :: bool                            \<comment> \<open>\<^verbatim>\<open>container.stop()\<close> raises\<close>

record world =
  clock_reads :: nat          \<comment> \<open>calls of \<^verbatim>\<open>time.time()\<close>\<close>
  reloads :: nat              \<comment> \<open>calls of \<^verbatim>\<open>container.reload()\<close>\<close>
  slept :: "nat list"         \<comment> \<open>the arguments of the calls of \<^verbatim>\<open>time.sleep\<close>, in order\<close>
  runs :: "run_params list"   \<comment> \<open>the run requests issued, in order\<close>
  stops :: nat                \<comment> \<open>calls of \<^verbatim>\<open>container.stop()\<close>\<close>
  closes :: nat               \<comment> \<open>calls of \<^verbatim>\<open>docker.close()\<close>\<close>

definition world0 :: world where
  "world0 = \<lparr>clock_reads = 0, reloads = 0, slept = [], runs = [], stops = 0, closes = 0\<rparr>"

subsection \<open>The runner object\<close>

datatype binary_kind =
    TensorFlowServing string   \<comment> \<open>the image\<close>
  | OtherBinaryKind string     \<comment> \<open>any other class, by name\<close>

record runner =
  model_base_path :: pystr
  model_name :: pystr
  model_version :: int
  binary_kind :: binary_kind
  container :: "container option"
  endpoint :: "pystr option"

definition POLLING_INTERVAL_SEC :: nat where
  "POLLING_INTERVAL_SEC = 1"

text \<open>
  \<^verbatim>\<open>__init__\<close>, given the result of \<^verbatim>\<open>path_utils.serving_model_path(model.uri)\<close>
  and the model name of the serving spec.
\<close>

definition init :: "unicode_db \<Rightarrow> pystr \<Rightarrow> binary_kind \<Rightarrow> pystr \<Rightarrow> exn + runner" where
  "init U serving_path kind spec_model_name =
     (case parse_model_path U serving_path of
        Inl e \<Rightarrow> Inl e
      | Inr (base_path, name, version) \<Rightarrow>
          if name \<noteq> spec_model_name then Inl ValueError
          else Inr \<lparr>model_base_path = base_path, model_name = name, model_version = version,
                    binary_kind = kind, container = None, endpoint = None\<rparr>)"

definition model_path :: "runner \<Rightarrow> pystr" where
  "model_path r = join_path (model_base_path r) [model_name r]"

definition model_version_path :: "runner \<Rightarrow> pystr" where
  "model_version_path r =
     join_path (model_base_path r) [model_name r, str_int (model_version r)]"

text \<open>
  \<^verbatim>\<open>
  def GetEndpoint(self):
    assert self._endpoint is not None, (...)
    return self._endpoint
  \<close>
\<close>

definition GetEndpoint :: "runner \<Rightarrow> exn + pystr" where
  "GetEndpoint r = (case endpoint r of None \<Rightarrow> Inl AssertionError | Some ep \<Rightarrow> Inr ep)"

text \<open>
  \<^verbatim>\<open>
  def Start(self):
    assert self._container is None, (...)
    host_port = _find_available_port()
    self._endpoint = 'localhost:{}'.format(host_port)
    if isinstance(self._binary_kind, binary_kinds.TensorFlowServing):
      is_local_model = os.path.exists(self._model_version_path)
      if is_local_model:
        run_params = self._binary_kind.MakeDockerRunParams(
            host_port=host_port, host_model_path=self._model_path)
      else:
        run_params = self._binary_kind.MakeDockerRunParams(
            host_port=host_port, model_base_path=self._model_base_path)
    else:
      raise NotImplementedError(...)
    self._container = self._docker.containers.run(**run_params)
  \<close>
\<close>

definition make_run_params :: "env \<Rightarrow> runner \<Rightarrow> nat \<Rightarrow> run_params" where
  "make_run_params e r port =
     (if path_exists e (model_version_path r)
      then \<lparr>host_port = port, host_model_path = Some (model_path r),
            model_base_path_arg = None\<rparr>
      else \<lparr>host_port = port, host_model_path = None,
            model_base_path_arg = Some (model_base_path r)\<rparr>)"

definition Start :: "env \<Rightarrow> runner \<Rightarrow> world \<Rightarrow> (exn + unit) \<times> runner \<times> world" where
  "Start e r w =
     (if container r \<noteq> None then (Inl AssertionError, r, w)
      else case free_port e of
        None \<Rightarrow> (Inl OSError, r, w)
      | Some port \<Rightarrow>
          let r1 = r\<lparr>endpoint := Some (cps ''localhost:'' @ str_nat port)\<rparr>
          in (case binary_kind r1 of
                TensorFlowServing img \<Rightarrow>
                  (let params = make_run_params e r1 port;
                       w1 = w\<lparr>runs := runs w @ [params]\<rparr>
                   in (case run_result e params of
                         None \<Rightarrow> (Inl DockerError, r1, w1)
                       | Some c \<Rightarrow> (Inr (), r1\<lparr>container := Some c\<rparr>, w1)))
              | OtherBinaryKind cls \<Rightarrow> (Inl NotImplementedError, r1, w)))"

text \<open>
  \<^verbatim>\<open>
  def WaitUntilRunning(self, deadline):
    assert self._container is not None, 'container has not been started.'
    while time.time() < deadline:
      try:
        self._container.reload()
        status = self._container.status
      except docker_errors.NotFound:
        raise error_types.JobAborted(...)
      if status == 'created':
        time.sleep(_POLLING_INTERVAL_SEC)
        continue
      if status == 'running':
        return
      raise error_types.JobAborted(...)
    raise error_types.DeadlineExceeded(...)
  \<close>
  The loop may run forever (a clock that never reaches the deadline, a container that
  stays created), so it is a partial function: \<open>None\<close> is "does not return".
\<close>

partial_function (option) wait_loop ::
  "env \<Rightarrow> real \<Rightarrow> world \<Rightarrow> ((exn + unit) \<times> world) option" where
  "wait_loop e deadline w =
     (let w1 = w\<lparr>clock_reads := clock_reads w + 1\<rparr>
      in if clock e (clock_reads w) < deadline
         then let w2 = w1\<lparr>reloads := reloads w1 + 1\<rparr>
              in case reload_script e (reloads w) of
                   NotFound \<Rightarrow> Some (Inl JobAborted, w2)
                 | ReloadRaises \<Rightarrow> Some (Inl DockerError, w2)
                 | Status status \<Rightarrow>
                     if status = ''created''
                     then wait_loop e deadline (w2\<lparr>slept := slept w2 @ [POLLING_INTERVAL_SEC]\<rparr>)
                     else if status = ''running'' then Some (Inr (), w2)
                     else Some (Inl JobAborted, w2)
         else Some (Inl DeadlineExceeded, w1))"

definition WaitUntilRunning ::
  "env \<Rightarrow> runner \<Rightarrow> real \<Rightarrow> world \<Rightarrow> ((exn + unit) \<times> world) option" where
  "WaitUntilRunning e r deadline w =
     (if container r = None then Some (Inl AssertionError, w) else wait_loop e deadline w)"

text \<open>
  \<^verbatim>\<open>
  def Stop(self):
    if self._container:
      logging.info('Stopping container.')
      self._container.stop()
    self._docker.close()
  \<close>
\<close>

definition Stop :: "env \<Rightarrow> runner \<Rightarrow> world \<Rightarrow> (exn + unit) \<times> runner \<times> world" where
  "Stop e r w =
     (if container r \<noteq> None
      then let w1 = w\<lparr>stops := stops w + 1\<rparr>
           in if stop_raises e then (Inl DockerError, r, w1)
              else (Inr (), r, w1\<lparr>closes := closes w1 + 1\<rparr>)
      else (Inr (), r, w\<lparr>closes := closes w + 1\<rparr>))"

subsection \<open>Auxiliary definitions\<close>

text \<open>The world after \<open>k\<close> more polls that each found the container created.\<close>

definition polled :: "nat \<Rightarrow> world \<Rightarrow> world" where
  "polled k w = w\<lparr>clock_reads := clock_reads w + k, reloads := reloads w + k,
                  slept := slept w @ replicate k POLLING_INTERVAL_SEC\<rparr>"

text \<open>
  The spec's "parses as a non-negative integer": a non-empty string of decimal digits,
  of any script of the Unicode database.
\<close>

definition spec_nonneg_int_literal :: "unicode_db \<Rightarrow> pystr \<Rightarrow> bool" where
  "spec_nonneg_int_literal U s = (s \<noteq> [] \<and> list_all (is_decimal U) s)"

text \<open>
  A fragment of the Unicode database, for examples: the Arabic-Indic digits (code points
  1632 to 1641) as the decimal digits above 127, the superscripts two, three and one (code
  points 178, 179 and 185) as the other digits.
\<close>

definition sample_db :: unicode_db where
  "sample_db =
     \<lparr>decimal_above = (\<lambda>c. if 1632 \<le> c \<and> c \<le> 1641 then Some (c - 1632) else None),
      digit_above = (\<lambda>c. c = 178 \<or> c = 179 \<or> c = 185)\<rparr>"

text \<open>
  A scripted engine with a clock that advances one second per reading, and two runner
  objects: one as \<^verbatim>\<open>__init__\<close> leaves it, one as a successful \<^verbatim>\<open>Start\<close> leaves it.
\<close>

definition scripted :: "reload_result list \<Rightarrow> nat \<Rightarrow> reload_result" where
  "scripted xs n = (if n < length xs then xs ! n else ReloadRaises)"

definition fake_env :: "reload_result list \<Rightarrow> env" where
  "fake_env xs =
     \<lparr>clock = (\<lambda>n. real n), reload_script = scripted xs, free_port = Some 8500,
      path_exists = (\<lambda>p. False), run_result = (\<lambda>p. Some 7), stop_raises = False\<rparr>"

definition fresh_runner :: runner where
  "fresh_runner =
     \<lparr>model_base_path = cps ''/models'', model_name = cps ''my_model'', model_version = 3,
      binary_kind = TensorFlowServing ''tensorflow/serving'', container = None,
      endpoint = None\<rparr>"

definition started_runner :: runner where
  "started_runner =
     fresh_runner\<lparr>container := Some 7, endpoint := Some (cps ''localhost:8500'')\<rparr>"

text \<open>
  An engine that refuses every run request, an engine whose stop request fails, and a
  runner built with a binary kind other than \<^verbatim>\<open>TensorFlowServing\<close>.
\<close>

definition engine_down :: env where
  "engine_down = (fake_env [])\<lparr>run_result := (\<lambda>p. None)\<rparr>"

definition stop_failing :: env where
  "stop_failing = (fake_env [])\<lparr>stop_raises := True\<rparr>"

definition unsupported_runner :: runner where
  "unsupported_runner = fresh_runner\<lparr>binary_kind := OtherBinaryKind ''Custom''\<rparr>"

section \<open>Properties of the path functions\<close>

lemma digit_char_decimal: "d < 10 \<Longrightarrow> decimal_value U (digit_char d) = Some d"
  by (simp add: decimal_value_def digit_char_def)

lemma digit_char_is_decimal: "d < 10 \<Longrightarrow> is_decimal U (digit_char d)"
  by (simp add: is_decimal_def digit_char_decimal)

lemma digit_char_val: "d < 10 \<Longrightarrow> digit_val U (digit_char d) = int d"
  by (simp add: digit_val_def digit_char_decimal)

lemma digit_char_not_sep: "d < 10 \<Longrightarrow> digit_char d \<noteq> sep"
  by (simp add: digit_char_def sep_def)

lemma str_nat_nonempty: "str_nat n \<noteq> []"
  by (subst str_nat.simps) simp

lemma str_nat_digits: "set (str_nat n) \<subseteq> digit_char ` {..<10}"
proof (induction n rule: str_nat.induct)
  case (1 n)
  show ?case
  proof (cases "n < 10")
    case True
    then show ?thesis by (subst str_nat.simps) simp
  next
    case False
    with 1 show ?thesis by (subst str_nat.simps) simp
  qed
qed

lemma str_nat_decimal: "list_all (is_decimal U) (str_nat n)"
  using str_nat_digits [of n] by (auto simp: list_all_iff digit_char_is_decimal)

lemma str_nat_value: "foldl (\<lambda>a c. 10 * a + digit_val U c) 0 (str_nat n) = int n"
proof (induction n rule: str_nat.induct)
  case (1 n)
  show ?case
  proof (cases "n < 10")
    case True
    then show ?thesis by (subst str_nat.simps) (simp add: digit_char_val)
  next
    case False
    with 1 have "foldl (\<lambda>a c. 10 * a + digit_val U c) 0 (str_nat (n div 10)) = int (n div 10)"
      by simp
    with False show ?thesis
      by (subst str_nat.simps) (simp add: digit_char_val zdiv_int zmod_int)
  qed
qed

lemma str_nat_no_sep: "sep \<notin> set (str_nat n)"
  using str_nat_digits [of n] digit_char_not_sep by fastforce

lemma str_nat_isdigit: "isdigit U (str_nat n)"
  using str_nat_decimal [of U n]
  by (auto simp: isdigit_def isdigit_char_def str_nat_nonempty list_all_iff)

lemma int_of_str_str_nat: "int_of_str U (str_nat n) = Inr (int n)"
  by (simp add: int_of_str_def str_nat_decimal str_nat_value)

lemma path_tail_append:
  assumes "sep \<notin> set t"
  shows "path_tail (xs @ sep # t) = t"
proof -
  have "takeWhile (\<lambda>c. c \<noteq> sep) (rev t @ sep # rev xs)
          = rev t @ takeWhile (\<lambda>c. c \<noteq> sep) (sep # rev xs)"
    by (rule takeWhile_append2) (use assms in auto)
  then have "takeWhile (\<lambda>c. c \<noteq> sep) (rev t @ sep # rev xs) = rev t"
    by simp
  then show ?thesis by (simp add: path_tail_def)
qed

lemma path_head_append:
  assumes "sep \<notin> set t"
  shows "path_head (xs @ sep # t) = xs @ [sep]"
proof -
  have "dropWhile (\<lambda>c. c \<noteq> sep) (rev t @ sep # rev xs)
          = dropWhile (\<lambda>c. c \<noteq> sep) (sep # rev xs)"
    by (rule dropWhile_append2) (use assms in auto)
  then have "dropWhile (\<lambda>c. c \<noteq> sep) (rev t @ sep # rev xs) = sep # rev xs"
    by simp
  then show ?thesis by (simp add: path_head_def)
qed

lemma rstrip_sep_snoc: "xs \<noteq> [] \<Longrightarrow> last xs \<noteq> sep \<Longrightarrow> rstrip_sep (xs @ [sep]) = xs"
  by (cases xs rule: rev_cases) (simp_all add: rstrip_sep_def)

lemma not_all_sep:
  assumes "xs \<noteq> []" "last xs \<noteq> sep"
  shows "xs @ ys \<noteq> replicate n sep"
proof
  assume "xs @ ys = replicate n sep"
  then have "set (xs @ ys) = set (replicate n sep)" by simp
  then have "set xs \<subseteq> {sep}" by auto
  moreover have "last xs \<in> set xs" using assms(1) by simp
  ultimately show False using assms(2) by auto
qed

lemma split_path_segment:
  assumes "xs \<noteq> []" "last xs \<noteq> sep" "sep \<notin> set t"
  shows "split_path (xs @ sep # t) = (xs, t)"
proof -
  have "xs @ [sep] \<noteq> replicate (length (xs @ [sep])) sep"
    using assms(1,2) by (rule not_all_sep)
  then show ?thesis
    using assms
    by (simp add: split_path_def path_tail_append path_head_append rstrip_sep_snoc Let_def
             del: replicate_Suc length_append)
qed

lemma last_not_sep: "name \<noteq> [] \<Longrightarrow> sep \<notin> set name \<Longrightarrow> last name \<noteq> sep"
  by (metis last_in_set)

section \<open>Properties of the polling loop\<close>

lemma polled_0: "polled 0 w = w"
  by (simp add: polled_def)

lemma wait_loop_deadline:
  "\<not> clock e (clock_reads w) < deadline \<Longrightarrow>
   wait_loop e deadline w = Some (Inl DeadlineExceeded, w\<lparr>clock_reads := clock_reads w + 1\<rparr>)"
  by (subst wait_loop.simps) simp

lemma wait_loop_created:
  "clock e (clock_reads w) < deadline \<Longrightarrow> reload_script e (reloads w) = Status ''created'' \<Longrightarrow>
   wait_loop e deadline w = wait_loop e deadline (polled 1 w)"
  by (subst wait_loop.simps) (simp add: polled_def)

lemma wait_loop_running:
  "clock e (clock_reads w) < deadline \<Longrightarrow> reload_script e (reloads w) = Status ''running'' \<Longrightarrow>
   wait_loop e deadline w =
     Some (Inr (), w\<lparr>clock_reads := clock_reads w + 1, reloads := reloads w + 1\<rparr>)"
  by (subst wait_loop.simps) simp

lemma wait_loop_not_found:
  "clock e (clock_reads w) < deadline \<Longrightarrow> reload_script e (reloads w) = NotFound \<Longrightarrow>
   wait_loop e deadline w =
     Some (Inl JobAborted, w\<lparr>clock_reads := clock_reads w + 1, reloads := reloads w + 1\<rparr>)"
  by (subst wait_loop.simps) simp

lemma wait_loop_other_status:
  "clock e (clock_reads w) < deadline \<Longrightarrow> reload_script e (reloads w) = Status s \<Longrightarrow>
   s \<noteq> ''created'' \<Longrightarrow> s \<noteq> ''running'' \<Longrightarrow>
   wait_loop e deadline w =
     Some (Inl JobAborted, w\<lparr>clock_reads := clock_reads w + 1, reloads := reloads w + 1\<rparr>)"
  by (subst wait_loop.simps) simp

lemma polled_Suc: "polled k (polled 1 w) = polled (Suc k) w"
  by (simp add: polled_def replicate_app_Cons_same)

lemma wait_loop_created_prefix:
  "(\<And>i. i < k \<Longrightarrow> clock e (clock_reads w + i) < deadline) \<Longrightarrow>
   (\<And>i. i < k \<Longrightarrow> reload_script e (reloads w + i) = Status ''created'') \<Longrightarrow>
   wait_loop e deadline w = wait_loop e deadline (polled k w)"
proof (induction k arbitrary: w)
  case 0
  show ?case by (simp add: polled_0)
next
  case (Suc k)
  have c0: "clock e (clock_reads w) < deadline" using Suc.prems(1) [of 0] by simp
  have s0: "reload_script e (reloads w) = Status ''created''" using Suc.prems(2) [of 0] by simp
  have "wait_loop e deadline (polled 1 w) = wait_loop e deadline (polled k (polled 1 w))"
  proof (rule Suc.IH)
    fix i assume "i < k"
    then show "clock e (clock_reads (polled 1 w) + i) < deadline"
      using Suc.prems(1) [of "Suc i"] by (simp add: polled_def)
  next
    fix i assume "i < k"
    then show "reload_script e (reloads (polled 1 w) + i) = Status ''created''"
      using Suc.prems(2) [of "Suc i"] by (simp add: polled_def)
  qed
  then have step: "wait_loop e deadline (polled 1 w) = wait_loop e deadline (polled (Suc k) w)"
    by (simp only: polled_Suc)
  have "wait_loop e deadline w = wait_loop e deadline (polled 1 w)"
    using c0 s0 by (rule wait_loop_created)
  then show ?case using step by (rule trans)
qed


lemma wait_loop_deadline_sound:
  assumes "wait_loop e deadline w = Some res"
  shows "fst res = Inl DeadlineExceeded \<longrightarrow>
         clock_reads w < clock_reads (snd res) \<and> deadline \<le> clock e (clock_reads (snd res) - 1)"
proof (rule wait_loop.raw_induct [where P = "\<lambda>e d w res. fst res = Inl DeadlineExceeded \<longrightarrow>
         clock_reads w < clock_reads (snd res) \<and> d \<le> clock e (clock_reads (snd res) - 1)", OF _ assms])
  fix wl :: "env \<Rightarrow> real \<Rightarrow> world \<Rightarrow> ((exn + unit) \<times> world) option"
  fix e d w ea
  assume IH: "\<And>e d w ea. wl e d w = Some ea \<Longrightarrow> fst ea = Inl DeadlineExceeded \<longrightarrow>
         clock_reads w < clock_reads (snd ea) \<and> d \<le> clock e (clock_reads (snd ea) - 1)"
  assume body: "(let w1 = w\<lparr>clock_reads := clock_reads w + 1\<rparr>
      in if clock e (clock_reads w) < d
         then let w2 = w1\<lparr>reloads := reloads w1 + 1\<rparr>
              in case reload_script e (reloads w) of
                   NotFound \<Rightarrow> Some (Inl JobAborted, w2)
                 | ReloadRaises \<Rightarrow> Some (Inl DockerError, w2)
                 | Status status \<Rightarrow>
                     if status = ''created''
                     then wl e d (w2\<lparr>slept := slept w2 @ [POLLING_INTERVAL_SEC]\<rparr>)
                     else if status = ''running'' then Some (Inr (), w2)
                     else Some (Inl JobAborted, w2)
         else Some (Inl DeadlineExceeded, w1)) = Some ea"
  show "fst ea = Inl DeadlineExceeded \<longrightarrow>
         clock_reads w < clock_reads (snd ea) \<and> d \<le> clock e (clock_reads (snd ea) - 1)"
  proof (cases "clock e (clock_reads w) < d")
    case False
    with body show ?thesis by auto
  next
    case True
    show ?thesis
    proof (cases "reload_script e (reloads w)")
      case (Status status)
      show ?thesis
      proof (cases "status = ''created''")
        case c: True
        with True Status body IH [of e d "w\<lparr>clock_reads := clock_reads w + 1, reloads := reloads w + 1, slept := slept w @ [POLLING_INTERVAL_SEC]\<rparr>" ea]
        show ?thesis by (auto simp: Let_def)
      next
        case False
        with True Status body show ?thesis by (auto simp: Let_def split: if_splits)
      qed
    next
      case NotFound
      with True body show ?thesis by (auto simp: Let_def)
    next
      case ReloadRaises
      with True body show ?thesis by (auto simp: Let_def)
    qed
  qed
qed

section \<open>The claims about the path parser\<close>

text \<open>
  Claim C7, as amended. For every path \<open>base_path/model_name/version\<close> in which
  \<open>base_path\<close> is not empty and does not end in a slash, \<open>model_name\<close> is not empty and
  holds no slash, and \<open>version\<close> is the decimal rendering of an integer \<open>\<ge> 0\<close>, the parser
  returns exactly \<open>base_path\<close>, \<open>model_name\<close> and the integer, and joining the three
  (as \<^verbatim>\<open>_model_version_path\<close> does) gives the path back. This holds whatever the Unicode
  database holds above code point 127.
\<close>

theorem parse_model_path_roundtrip:
  assumes "base_path \<noteq> []" and "last base_path \<noteq> sep"
    and "name \<noteq> []" and "sep \<notin> set name" and "0 \<le> version"
  shows "parse_model_path U (base_path @ [sep] @ name @ [sep] @ str_int version)
           = Inr (base_path, name, version)
         \<and> join_path base_path [name, str_int version]
           = base_path @ [sep] @ name @ [sep] @ str_int version"
proof -
  let ?v = "str_nat (nat version)"
  have sv: "str_int version = ?v" using assms(5) by (simp add: str_int_def)
  have l: "last (base_path @ sep # name) \<noteq> sep"
    using assms(3,4) by (simp add: last_not_sep)
  have "split_path ((base_path @ sep # name) @ sep # ?v) = (base_path @ sep # name, ?v)"
    using l by (intro split_path_segment) (simp_all add: str_nat_no_sep)
  moreover have "split_path (base_path @ sep # name) = (base_path, name)"
    using assms(1,2,4) by (intro split_path_segment)
  ultimately have parse: "parse_model_path U (base_path @ [sep] @ name @ [sep] @ ?v)
      = Inr (base_path, name, version)"
    using assms(5) by (simp add: parse_model_path_def str_nat_isdigit int_of_str_str_nat)
  have "hd name \<noteq> sep" using assms(3,4) by (cases name) auto
  moreover have "hd ?v \<noteq> sep"
    using str_nat_no_sep [of "nat version"] str_nat_nonempty [of "nat version"]
    by (cases ?v) auto
  ultimately have "join_path base_path [name, ?v] = base_path @ [sep] @ name @ [sep] @ ?v"
    using assms(1,2,3) l str_nat_nonempty [of "nat version"]
    by (simp add: join_path_def join_step_def)
  with parse sv show ?thesis by simp
qed

theorem parse_model_path_roundtrip_witness:
  "parse_model_path sample_db (cps ''/models/my_model/3'')
     = Inr (cps ''/models'', cps ''my_model'', 3)
   \<and> join_path (cps ''/models'') [cps ''my_model'', str_int 3] = cps ''/models/my_model/3''"
proof -
  have s3: "str_int 3 = cps ''3''"
    by code_simp
  have a: "cps ''/models'' \<noteq> []" "last (cps ''/models'') \<noteq> sep"
          "cps ''my_model'' \<noteq> []" "sep \<notin> set (cps ''my_model'')" "(0::int) \<le> 3"
    by (simp_all add: cps_def sep_def)
  have p: "cps ''/models'' @ sep # cps ''my_model'' @ sep # cps ''3''
           = cps ''/models/my_model/3''"
    by (simp add: cps_def sep_def)
  from parse_model_path_roundtrip [OF a, of sample_db]
  show ?thesis by (simp add: s3 p)
qed

text \<open>
  Claim C7 as it is stated fails where the base path ends in a slash: for the base path
  \<^verbatim>\<open>/a/\<close>, the model name \<^verbatim>\<open>m\<close> and the version 1, the parser strips the
  slash from the base path, and the three components join to another path.
\<close>

theorem parse_model_path_trailing_slash_counterexample:
  "parse_model_path sample_db (cps ''/a/'' @ cps ''/'' @ cps ''m'' @ cps ''/'' @ str_int 1)
     = Inr (cps ''/a'', cps ''m'', 1)
   \<and> cps ''/a'' \<noteq> cps ''/a/''
   \<and> join_path (cps ''/a'') [cps ''m'', str_int 1]
     \<noteq> cps ''/a/'' @ cps ''/'' @ cps ''m'' @ cps ''/'' @ str_int 1"
  by code_simp

text \<open>
  Claim C8. Every path whose last segment (what \<^verbatim>\<open>os.path.split\<close> returns second) does
  not parse as a non-negative integer is rejected with \<^verbatim>\<open>ValueError\<close>, the exception the
  spec calls InvalidServingPath: either \<^verbatim>\<open>isdigit\<close> is false of the segment and the parser
  raises, or the segment holds a digit that is not decimal and \<^verbatim>\<open>int\<close> raises. This holds
  for every Unicode database. (A segment of decimal digits of another script does parse:
  see \<open>parse_model_path_arabic_indic\<close>.)
\<close>

theorem parse_model_path_rejects:
  assumes "\<not> spec_nonneg_int_literal U (snd (split_path p))"
  shows "parse_model_path U p = Inl ValueError"
  using assms
  by (auto simp: parse_model_path_def split_path_def Let_def isdigit_def int_of_str_def
        spec_nonneg_int_literal_def split: prod.splits sum.splits)

theorem parse_model_path_rejects_witness:
  "\<not> spec_nonneg_int_literal sample_db (snd (split_path (cps ''/a/b/model/latest'')))
   \<and> parse_model_path sample_db (cps ''/a/b/model/latest'') = Inl ValueError"
proof -
  have h: "\<not> spec_nonneg_int_literal sample_db (snd (split_path (cps ''/a/b/model/latest'')))"
    by code_simp
  from h parse_model_path_rejects [OF h] show ?thesis by simp
qed

text \<open>
  The parser on segments that are digits beyond \<^verbatim>\<open>0\<close> to \<^verbatim>\<open>9\<close>: the Arabic-Indic three
  is a decimal digit and gives version 3; the superscript two passes \<^verbatim>\<open>isdigit\<close> and
  makes \<^verbatim>\<open>int\<close> raise; and a segment is accepted exactly when it is a non-empty string of
  decimal digits.
\<close>

lemma parse_model_path_arabic_indic:
  "parse_model_path sample_db (cps ''/a/m/'' @ [1635]) = Inr (cps ''/a'', cps ''m'', 3)"
  by code_simp

lemma parse_model_path_superscript:
  "isdigit sample_db [178] \<and> parse_model_path sample_db (cps ''/a/m/'' @ [178]) = Inl ValueError"
  by code_simp

lemma parse_model_path_accepts_iff:
  "(\<exists>r. parse_model_path U p = Inr r) \<longleftrightarrow> spec_nonneg_int_literal U (snd (split_path p))"
  by (auto simp: parse_model_path_def split_path_def Let_def isdigit_def isdigit_char_def
        int_of_str_def spec_nonneg_int_literal_def list_all_iff split: prod.splits sum.splits)

section \<open>The claims about the polling loop\<close>

lemma fake_env_simps:
  "clock (fake_env xs) n = real n"
  "reload_script (fake_env xs) n = scripted xs n"
  by (simp_all add: fake_env_def)

lemma started_runner_container: "container started_runner = Some 7"
  by (simp add: started_runner_def)

text \<open>
  Claim C1. Take a call of \<^verbatim>\<open>WaitUntilRunning\<close> on a runner that holds a container, and
  its poll number \<open>k\<close> (the \<open>k\<close> polls before it found the container created, and the
  deadline was not reached at any of the \<open>k + 1\<close> loop tests). If the engine answers that
  poll with "not found" or with a status other than \<^verbatim>\<open>created\<close> and \<^verbatim>\<open>running\<close>, the
  call raises \<^verbatim>\<open>JobAborted\<close> at once: it has then made \<open>k + 1\<close> status refreshes and \<open>k\<close>
  sleeps in all, so none after that poll.
\<close>

theorem wait_aborts_immediately:
  assumes "container r \<noteq> None"
    and "\<And>i. i < k \<Longrightarrow> clock e (clock_reads w + i) < deadline"
    and "\<And>i. i < k \<Longrightarrow> reload_script e (reloads w + i) = Status ''created''"
    and "clock e (clock_reads w + k) < deadline"
    and "reload_script e (reloads w + k) = NotFound
         \<or> (\<exists>s. reload_script e (reloads w + k) = Status s \<and> s \<noteq> ''created'' \<and> s \<noteq> ''running'')"
  shows "WaitUntilRunning e r deadline w =
           Some (Inl JobAborted,
                 w\<lparr>clock_reads := clock_reads w + k + 1, reloads := reloads w + k + 1,
                   slept := slept w @ replicate k POLLING_INTERVAL_SEC\<rparr>)"
proof -
  have "wait_loop e deadline w = wait_loop e deadline (polled k w)"
    using assms(2,3) by (rule wait_loop_created_prefix)
  moreover have "wait_loop e deadline (polled k w) =
      Some (Inl JobAborted, (polled k w)\<lparr>clock_reads := clock_reads (polled k w) + 1,
                                         reloads := reloads (polled k w) + 1\<rparr>)"
    using assms(5)
  proof (elim disjE exE conjE)
    assume "reload_script e (reloads w + k) = NotFound"
    with assms(4) show ?thesis
      by (intro wait_loop_not_found) (simp_all add: polled_def)
  next
    fix s
    assume "reload_script e (reloads w + k) = Status s" "s \<noteq> ''created''" "s \<noteq> ''running''"
    with assms(4) show ?thesis
      by (intro wait_loop_other_status [where s = s]) (simp_all add: polled_def)
  qed
  ultimately show ?thesis
    using assms(1) by (simp add: WaitUntilRunning_def polled_def)
qed

theorem wait_aborts_immediately_witness:
  "WaitUntilRunning (fake_env [Status ''created'', Status ''exited'']) started_runner 10 world0
     = Some (Inl JobAborted, world0\<lparr>clock_reads := 2, reloads := 2, slept := [1]\<rparr>)
   \<and> WaitUntilRunning (fake_env [NotFound]) started_runner 10 world0
     = Some (Inl JobAborted, world0\<lparr>clock_reads := 1, reloads := 1, slept := []\<rparr>)"
proof -
  let ?e = "fake_env [Status ''created'', Status ''exited'']"
  let ?f = "fake_env [NotFound]"
  have a: "container started_runner \<noteq> None" by (simp add: started_runner_container)
  have b: "\<And>i. i < 1 \<Longrightarrow> clock ?e (clock_reads world0 + i) < 10"
    by (simp add: fake_env_simps world0_def)
  have c: "\<And>i. i < 1 \<Longrightarrow> reload_script ?e (reloads world0 + i) = Status ''created''"
    by (simp add: fake_env_simps world0_def scripted_def)
  have d: "clock ?e (clock_reads world0 + 1) < 10"
    by (simp add: fake_env_simps world0_def)
  have x: "reload_script ?e (reloads world0 + 1) = NotFound
         \<or> (\<exists>s. reload_script ?e (reloads world0 + 1) = Status s
                \<and> s \<noteq> ''created'' \<and> s \<noteq> ''running'')"
    by (simp add: fake_env_simps world0_def scripted_def)
  have b0: "\<And>i. i < 0 \<Longrightarrow> clock ?f (clock_reads world0 + i) < 10" by simp
  have c0: "\<And>i. i < 0 \<Longrightarrow> reload_script ?f (reloads world0 + i) = Status ''created''" by simp
  have d0: "clock ?f (clock_reads world0 + 0) < 10"
    by (simp add: fake_env_simps world0_def)
  have x0: "reload_script ?f (reloads world0 + 0) = NotFound
         \<or> (\<exists>s. reload_script ?f (reloads world0 + 0) = Status s
                \<and> s \<noteq> ''created'' \<and> s \<noteq> ''running'')"
    by (simp add: fake_env_simps world0_def scripted_def)
  from wait_aborts_immediately [of started_runner 1 ?e world0 10, OF a b c d x]
       wait_aborts_immediately [of started_runner 0 ?f world0 10, OF a b0 c0 d0 x0]
  show ?thesis by (simp add: world0_def POLLING_INTERVAL_SEC_def)
qed

text \<open>
  Claim C2. If the engine reports \<^verbatim>\<open>created\<close> \<open>k\<close> times and then \<^verbatim>\<open>running\<close>, and the
  deadline is not reached at any of the \<open>k + 1\<close> loop tests, \<^verbatim>\<open>WaitUntilRunning\<close> returns
  normally after exactly \<open>k\<close> sleeps of the poll interval and exactly \<open>k + 1\<close> status
  refreshes. The witness is the script created, created, running: two sleeps.
\<close>

theorem wait_returns_after_k_sleeps:
  assumes "container r \<noteq> None"
    and "\<And>i. i < k \<Longrightarrow> reload_script e (reloads w + i) = Status ''created''"
    and "reload_script e (reloads w + k) = Status ''running''"
    and "\<And>i. i \<le> k \<Longrightarrow> clock e (clock_reads w + i) < deadline"
  shows "WaitUntilRunning e r deadline w =
           Some (Inr (),
                 w\<lparr>clock_reads := clock_reads w + k + 1, reloads := reloads w + k + 1,
                   slept := slept w @ replicate k POLLING_INTERVAL_SEC\<rparr>)"
proof -
  have "wait_loop e deadline w = wait_loop e deadline (polled k w)"
    using assms(2,4) by (intro wait_loop_created_prefix) simp_all
  moreover have "wait_loop e deadline (polled k w) =
      Some (Inr (), (polled k w)\<lparr>clock_reads := clock_reads (polled k w) + 1,
                                  reloads := reloads (polled k w) + 1\<rparr>)"
    using assms(3) assms(4) [of k]
    by (intro wait_loop_running) (simp_all add: polled_def)
  ultimately show ?thesis
    using assms(1) by (simp add: WaitUntilRunning_def polled_def)
qed

theorem wait_returns_after_k_sleeps_witness:
  "WaitUntilRunning (fake_env [Status ''created'', Status ''created'', Status ''running''])
      started_runner 10 world0
     = Some (Inr (), world0\<lparr>clock_reads := 3, reloads := 3, slept := [1, 1]\<rparr>)"
proof -
  let ?e = "fake_env [Status ''created'', Status ''created'', Status ''running'']"
  have a: "container started_runner \<noteq> None" by (simp add: started_runner_container)
  have b: "\<And>i. i < 2 \<Longrightarrow> reload_script ?e (reloads world0 + i) = Status ''created''"
    by (auto simp: fake_env_simps world0_def scripted_def less_Suc_eq numeral_2_eq_2)
  have c: "reload_script ?e (reloads world0 + 2) = Status ''running''"
    by (simp add: fake_env_simps world0_def scripted_def)
  have d: "\<And>i. i \<le> 2 \<Longrightarrow> clock ?e (clock_reads world0 + i) < 10"
    by (simp add: fake_env_simps world0_def)
  have r: "replicate 2 POLLING_INTERVAL_SEC = [1, 1]"
    by (simp add: POLLING_INTERVAL_SEC_def numeral_2_eq_2)
  from wait_returns_after_k_sleeps [of started_runner 2 ?e world0 10, OF a b c d]
  show ?thesis by (simp add: r world0_def)
qed

text \<open>
  Claim C3. If every poll before the deadline reports \<^verbatim>\<open>created\<close> and the clock reaches
  the deadline at its \<open>n\<close>-th reading, \<^verbatim>\<open>WaitUntilRunning\<close> raises \<^verbatim>\<open>DeadlineExceeded\<close>
  right after that reading. And never before the deadline: whenever a call raises
  \<^verbatim>\<open>DeadlineExceeded\<close>, whatever the engine and the clock do, the last clock reading it
  made was at or after the deadline.
\<close>

theorem wait_deadline_exceeded:
  assumes "container r \<noteq> None"
    and "\<And>i. i < n \<Longrightarrow> clock e (clock_reads w + i) < deadline"
    and "\<And>i. i < n \<Longrightarrow> reload_script e (reloads w + i) = Status ''created''"
    and "deadline \<le> clock e (clock_reads w + n)"
  shows "WaitUntilRunning e r deadline w =
           Some (Inl DeadlineExceeded,
                 w\<lparr>clock_reads := clock_reads w + n + 1, reloads := reloads w + n,
                   slept := slept w @ replicate n POLLING_INTERVAL_SEC\<rparr>)
         \<and> (\<forall>e' r' d' w0 w'.
               WaitUntilRunning e' r' d' w0 = Some (Inl DeadlineExceeded, w') \<longrightarrow>
               clock_reads w0 < clock_reads w' \<and> d' \<le> clock e' (clock_reads w' - 1))"
proof -
  have "wait_loop e deadline w = wait_loop e deadline (polled n w)"
    using assms(2,3) by (rule wait_loop_created_prefix)
  moreover have "wait_loop e deadline (polled n w) =
      Some (Inl DeadlineExceeded, (polled n w)\<lparr>clock_reads := clock_reads (polled n w) + 1\<rparr>)"
    using assms(4) by (intro wait_loop_deadline) (simp add: polled_def)
  ultimately have first: "WaitUntilRunning e r deadline w =
           Some (Inl DeadlineExceeded,
                 w\<lparr>clock_reads := clock_reads w + n + 1, reloads := reloads w + n,
                   slept := slept w @ replicate n POLLING_INTERVAL_SEC\<rparr>)"
    using assms(1) by (simp add: WaitUntilRunning_def polled_def)
  have second: "clock_reads w0 < clock_reads w' \<and> d' \<le> clock e' (clock_reads w' - 1)"
    if "WaitUntilRunning e' r' d' w0 = Some (Inl DeadlineExceeded, w')" for e' r' d' w0 w'
  proof -
    from that have "wait_loop e' d' w0 = Some (Inl DeadlineExceeded, w')"
      by (simp add: WaitUntilRunning_def split: if_splits)
    from wait_loop_deadline_sound [OF this] show ?thesis by simp
  qed
  from first second show ?thesis by blast
qed

theorem wait_deadline_exceeded_witness:
  "WaitUntilRunning (fake_env (replicate 5 (Status ''created''))) started_runner 3 world0
     = Some (Inl DeadlineExceeded, world0\<lparr>clock_reads := 4, reloads := 3, slept := [1, 1, 1]\<rparr>)
   \<and> (3::real) \<le> clock (fake_env (replicate 5 (Status ''created''))) (4 - 1)"
proof -
  let ?e = "fake_env (replicate 5 (Status ''created''))"
  have a: "container started_runner \<noteq> None" by (simp add: started_runner_container)
  have b: "\<And>i. i < 3 \<Longrightarrow> clock ?e (clock_reads world0 + i) < 3"
    by (simp add: fake_env_simps world0_def)
  have c: "\<And>i. i < 3 \<Longrightarrow> reload_script ?e (reloads world0 + i) = Status ''created''"
    by (simp add: fake_env_simps world0_def scripted_def)
  have d: "3 \<le> clock ?e (clock_reads world0 + 3)"
    by (simp add: fake_env_simps world0_def)
  have r: "replicate 3 POLLING_INTERVAL_SEC = [1, 1, 1]"
    by (simp add: POLLING_INTERVAL_SEC_def numeral_3_eq_3)
  from wait_deadline_exceeded [of started_runner 3 ?e world0 3, OF a b c d]
  have "WaitUntilRunning ?e started_runner 3 world0
     = Some (Inl DeadlineExceeded, world0\<lparr>clock_reads := 4, reloads := 3, slept := [1, 1, 1]\<rparr>)"
   and g: "\<And>w0 w'. WaitUntilRunning ?e started_runner 3 w0 = Some (Inl DeadlineExceeded, w') \<Longrightarrow>
          3 \<le> clock ?e (clock_reads w' - 1)"
    by (simp_all add: r world0_def)
  then show ?thesis using g [of world0] by (simp add: world0_def)
qed

text \<open>
  Claim C10. If the deadline is at or before the current time when \<^verbatim>\<open>WaitUntilRunning\<close>
  is called on a runner that holds a container, the call raises \<^verbatim>\<open>DeadlineExceeded\<close>
  after its first clock reading, with no status refresh and no sleep, whatever the engine
  would have reported; in the witness the container is already running.
\<close>

theorem wait_deadline_already_passed:
  assumes "container r \<noteq> None" and "deadline \<le> clock e (clock_reads w)"
  shows "WaitUntilRunning e r deadline w =
           Some (Inl DeadlineExceeded, w\<lparr>clock_reads := clock_reads w + 1\<rparr>)"
  using assms by (simp add: WaitUntilRunning_def wait_loop_deadline)

theorem wait_deadline_already_passed_witness:
  "WaitUntilRunning (fake_env [Status ''running'']) started_runner 0 world0
     = Some (Inl DeadlineExceeded, world0\<lparr>clock_reads := 1\<rparr>)
   \<and> reloads (world0\<lparr>clock_reads := 1\<rparr>) = 0 \<and> slept (world0\<lparr>clock_reads := 1\<rparr>) = []"
  using wait_deadline_already_passed [of started_runner 0 "fake_env [Status ''running'']" world0]
  by (simp add: fake_env_simps started_runner_container world0_def)

section \<open>Properties of \<^verbatim>\<open>Start\<close> and \<^verbatim>\<open>Stop\<close>\<close>

lemma str_nat_8500: "str_nat 8500 = [56, 53, 48, 48]"
  by (simp add: str_nat.simps digit_char_def)

lemma endpoint_8500: "cps ''localhost:'' @ str_nat 8500 = cps ''localhost:8500''"
  by (simp add: cps_def str_nat_8500)

lemma make_run_params_endpoint:
  "make_run_params e (r\<lparr>endpoint := ep\<rparr>) port = make_run_params e r port"
  by (simp add: make_run_params_def model_version_path_def model_path_def)

lemma Start_held: "container r \<noteq> None \<Longrightarrow> Start e r w = (Inl AssertionError, r, w)"
  by (simp add: Start_def)

lemma Start_run_fails:
  assumes "container r = None" and "free_port e = Some port"
    and "binary_kind r = TensorFlowServing img"
    and "run_result e (make_run_params e r port) = None"
  shows "Start e r w =
           (Inl DockerError, r\<lparr>endpoint := Some (cps ''localhost:'' @ str_nat port)\<rparr>,
            w\<lparr>runs := runs w @ [make_run_params e r port]\<rparr>)"
  using assms by (simp add: Start_def make_run_params_endpoint Let_def)

lemma Start_unsupported:
  assumes "container r = None" and "free_port e = Some port"
    and "binary_kind r = OtherBinaryKind cls"
  shows "Start e r w =
           (Inl NotImplementedError, r\<lparr>endpoint := Some (cps ''localhost:'' @ str_nat port)\<rparr>, w)"
  using assms by (simp add: Start_def Let_def)

lemma Start_ok:
  assumes "container r = None" and "free_port e = Some port"
    and "binary_kind r = TensorFlowServing img"
    and "run_result e (make_run_params e r port) = Some c"
  shows "Start e r w =
           (Inr (), r\<lparr>endpoint := Some (cps ''localhost:'' @ str_nat port), container := Some c\<rparr>,
            w\<lparr>runs := runs w @ [make_run_params e r port]\<rparr>)"
  using assms by (simp add: Start_def make_run_params_endpoint Let_def)

lemma Start_no_port:
  "container r = None \<Longrightarrow> free_port e = None \<Longrightarrow> Start e r w = (Inl OSError, r, w)"
  by (simp add: Start_def)

lemma Start_success_endpoint:
  assumes "fst (Start e r w) = Inr ()"
  shows "\<exists>ep. GetEndpoint (fst (snd (Start e r w))) = Inr ep"
proof (cases "container r")
  case (Some c)
  with assms show ?thesis by (simp add: Start_held)
next
  case None
  show ?thesis
  proof (cases "free_port e")
    case n: None
    with None assms show ?thesis by (simp add: Start_no_port)
  next
    case (Some port)
    show ?thesis
    proof (cases "binary_kind r")
      case (OtherBinaryKind cls)
      with None Some assms show ?thesis by (simp add: Start_unsupported)
    next
      case (TensorFlowServing img)
      show ?thesis
      proof (cases "run_result e (make_run_params e r port)")
        case n: None
        with None Some TensorFlowServing assms show ?thesis by (simp add: Start_run_fails)
      next
        case (Some c)
        with None \<open>free_port e = Some port\<close> TensorFlowServing show ?thesis
          by (simp add: Start_ok GetEndpoint_def)
      qed
    qed
  qed
qed

lemma Start_no_assertion:
  assumes "container r = None"
  shows "fst (Start e r w) \<noteq> Inl AssertionError"
proof (cases "free_port e")
  case None
  with assms show ?thesis by (simp add: Start_no_port)
next
  case (Some port)
  show ?thesis
  proof (cases "binary_kind r")
    case (OtherBinaryKind cls)
    with assms Some show ?thesis by (simp add: Start_unsupported)
  next
    case (TensorFlowServing img)
    show ?thesis
    proof (cases "run_result e (make_run_params e r port)")
      case None
      with assms Some TensorFlowServing show ?thesis by (simp add: Start_run_fails)
    next
      case c: (Some c)
      with assms Some TensorFlowServing show ?thesis by (simp add: Start_ok)
    qed
  qed
qed

lemma init_fresh:
  assumes "init U serving_path kind spec_name = Inr r"
  shows "endpoint r = None \<and> container r = None"
proof (cases "parse_model_path U serving_path")
  case (Inl e)
  with assms show ?thesis by (simp add: init_def)
next
  case (Inr t)
  obtain b n v where "t = (b, n, v)" by (cases t)
  with Inr assms show ?thesis by (auto simp: init_def split: if_splits)
qed

lemma Stop_held:
  "container r \<noteq> None \<Longrightarrow>
   Stop e r w = (if stop_raises e then (Inl DockerError, r, w\<lparr>stops := stops w + 1\<rparr>)
                 else (Inr (), r, w\<lparr>stops := stops w + 1, closes := closes w + 1\<rparr>))"
  by (simp add: Stop_def Let_def)

lemma Stop_not_held:
  "container r = None \<Longrightarrow> Stop e r w = (Inr (), r, w\<lparr>closes := closes w + 1\<rparr>)"
  by (simp add: Stop_def)

lemma Stop_runner: "fst (snd (Stop e r w)) = r"
  by (cases "container r") (simp_all add: Stop_held Stop_not_held)

lemma fixtures:
  "container fresh_runner = None" "endpoint fresh_runner = None"
  "binary_kind fresh_runner = TensorFlowServing ''tensorflow/serving''"
  "container started_runner = Some 7" "endpoint started_runner = Some (cps ''localhost:8500'')"
  "container unsupported_runner = None"
  "binary_kind unsupported_runner = OtherBinaryKind ''Custom''"
  "free_port (fake_env xs) = Some 8500" "run_result (fake_env xs) p = Some 7"
  "stop_raises (fake_env xs) = False"
  "free_port engine_down = Some 8500" "run_result engine_down p = None"
  "stop_raises stop_failing = True"
  by (simp_all add: fresh_runner_def started_runner_def unsupported_runner_def fake_env_def
        engine_down_def stop_failing_def)

lemma fresh_run_params:
  "make_run_params engine_down fresh_runner 8500 =
     \<lparr>host_port = 8500, host_model_path = None, model_base_path_arg = Some (cps ''/models'')\<rparr>"
  by (simp add: make_run_params_def engine_down_def fake_env_def fresh_runner_def)

section \<open>The claims about the life cycle\<close>

text \<open>
  Claim C4, as amended. If \<^verbatim>\<open>Start()\<close> fails because the engine's run request raises, no
  container handle is stored: the precondition of \<^verbatim>\<open>Start()\<close> (no handle held) still
  holds, and \<^verbatim>\<open>WaitUntilRunning\<close> still fails its assertion. The endpoint, though, has
  been assigned before the run request, so reading it afterwards returns
  \<^verbatim>\<open>localhost:port\<close> and is no longer a precondition violation.
\<close>

theorem start_failure_stores_no_container:
  assumes "container r = None" and "free_port e = Some port"
    and "binary_kind r = TensorFlowServing img"
    and "run_result e (make_run_params e r port) = None"
  shows "Start e r w =
           (Inl DockerError, r\<lparr>endpoint := Some (cps ''localhost:'' @ str_nat port)\<rparr>,
            w\<lparr>runs := runs w @ [make_run_params e r port]\<rparr>)
         \<and> container (fst (snd (Start e r w))) = None
         \<and> WaitUntilRunning e (fst (snd (Start e r w))) deadline w' = Some (Inl AssertionError, w')
         \<and> GetEndpoint (fst (snd (Start e r w))) = Inr (cps ''localhost:'' @ str_nat port)"
  using assms by (simp add: Start_run_fails WaitUntilRunning_def GetEndpoint_def)

theorem start_failure_stores_no_container_witness:
  "Start engine_down fresh_runner world0 =
     (Inl DockerError, fresh_runner\<lparr>endpoint := Some (cps ''localhost:8500'')\<rparr>,
      world0\<lparr>runs := [\<lparr>host_port = 8500, host_model_path = None,
                         model_base_path_arg = Some (cps ''/models'')\<rparr>]\<rparr>)
   \<and> container (fst (snd (Start engine_down fresh_runner world0))) = None
   \<and> WaitUntilRunning engine_down (fst (snd (Start engine_down fresh_runner world0))) 10 world0
       = Some (Inl AssertionError, world0)
   \<and> GetEndpoint (fst (snd (Start engine_down fresh_runner world0)))
       = Inr (cps ''localhost:8500'')"
proof -
  have d: "run_result engine_down (make_run_params engine_down fresh_runner 8500) = None"
    by (rule fixtures)
  have r: "runs world0 = []" by (simp add: world0_def)
  note t = start_failure_stores_no_container
             [OF fixtures(1) fixtures(11) fixtures(3) d, of world0 10 world0]
  show ?thesis
    using t unfolding endpoint_8500 fresh_run_params r append_Nil .
qed

text \<open>
  Claim C4 as it is stated fails in its last part: on a freshly built runner
  \<^verbatim>\<open>GetEndpoint()\<close> fails its assertion; after a \<^verbatim>\<open>Start()\<close> that failed because the engine
  refused the run request, it returns \<^verbatim>\<open>localhost:8500\<close>.
\<close>

theorem get_endpoint_after_failed_start_counterexample:
  "GetEndpoint fresh_runner = Inl AssertionError
   \<and> fst (Start engine_down fresh_runner world0) = Inl DockerError
   \<and> GetEndpoint (fst (snd (Start engine_down fresh_runner world0)))
       = Inr (cps ''localhost:8500'')"
proof -
  have d: "run_result engine_down (make_run_params engine_down fresh_runner 8500) = None"
    by (rule fixtures)
  have "Start engine_down fresh_runner world0 =
      (Inl DockerError, fresh_runner\<lparr>endpoint := Some (cps ''localhost:'' @ str_nat 8500)\<rparr>,
       world0\<lparr>runs := runs world0 @ [make_run_params engine_down fresh_runner 8500]\<rparr>)"
    using fixtures(1) fixtures(11) fixtures(3) d by (rule Start_run_fails)
  then show ?thesis by (simp add: GetEndpoint_def fixtures endpoint_8500)
qed

text \<open>
  Claim C5, as amended. On a runner that holds a container handle, \<^verbatim>\<open>Stop()\<close> issues the
  stop request; when that request succeeds, the engine client is released
  (\<^verbatim>\<open>close()\<close> is called once); when it raises, the error leaves \<^verbatim>\<open>Stop()\<close> and
  \<^verbatim>\<open>close()\<close> is not called.
\<close>

theorem stop_releases_client:
  assumes "container r \<noteq> None"
  shows "(\<not> stop_raises e \<longrightarrow>
            Stop e r w = (Inr (), r, w\<lparr>stops := stops w + 1, closes := closes w + 1\<rparr>))
         \<and> (stop_raises e \<longrightarrow> Stop e r w = (Inl DockerError, r, w\<lparr>stops := stops w + 1\<rparr>))"
  using assms by (simp add: Stop_held)

theorem stop_releases_client_witness:
  "Stop (fake_env []) started_runner world0
     = (Inr (), started_runner, world0\<lparr>stops := 1, closes := 1\<rparr>)
   \<and> Stop stop_failing started_runner world0
     = (Inl DockerError, started_runner, world0\<lparr>stops := 1\<rparr>)"
proof -
  have a: "container started_runner \<noteq> None" by (simp add: fixtures)
  from stop_releases_client [OF a, of "fake_env []" world0]
       stop_releases_client [OF a, of stop_failing world0]
  show ?thesis by (simp add: fixtures world0_def)
qed

text \<open>
  Claim C5 as it is stated fails: with a stop request that raises, \<^verbatim>\<open>Stop()\<close> on a runner
  holding a handle raises, and \<^verbatim>\<open>close()\<close> has not been called.
\<close>

theorem stop_failure_skips_close_counterexample:
  "container started_runner \<noteq> None
   \<and> fst (Stop stop_failing started_runner world0) = Inl DockerError
   \<and> closes (snd (snd (Stop stop_failing started_runner world0))) = 0"
  by (simp add: Stop_held fixtures world0_def)

text \<open>
  Claim C6, as amended. \<^verbatim>\<open>Stop()\<close> leaves the runner object as it was, the container
  handle included: after \<^verbatim>\<open>Stop()\<close> on a runner that held a handle, \<^verbatim>\<open>Start()\<close> still
  fails its assertion; the precondition of \<^verbatim>\<open>Start()\<close> holds after \<^verbatim>\<open>Stop()\<close> only where
  it held before.
\<close>

theorem stop_keeps_container:
  "fst (snd (Stop e r w)) = r
   \<and> (container r \<noteq> None \<longrightarrow>
        Start e' (fst (snd (Stop e r w))) w' = (Inl AssertionError, r, w'))
   \<and> (container r = None \<longrightarrow> container (fst (snd (Stop e r w))) = None)"
  by (simp add: Stop_runner Start_held)

theorem stop_keeps_container_witness:
  "fst (snd (Stop (fake_env []) started_runner world0)) = started_runner
   \<and> Start (fake_env []) (fst (snd (Stop (fake_env []) started_runner world0))) world0
       = (Inl AssertionError, started_runner, world0)
   \<and> container (fst (snd (Stop (fake_env []) fresh_runner world0))) = None"
proof -
  have a: "container started_runner \<noteq> None" by (simp add: fixtures)
  have b: "container fresh_runner = None" by (rule fixtures)
  note k1 = stop_keeps_container [of "fake_env []" started_runner world0 "fake_env []" world0]
  note k2 = stop_keeps_container [of "fake_env []" fresh_runner world0 "fake_env []" world0]
  from k1 have "fst (snd (Stop (fake_env []) started_runner world0)) = started_runner"
    by blast
  moreover from k1 a
  have "Start (fake_env []) (fst (snd (Stop (fake_env []) started_runner world0))) world0
       = (Inl AssertionError, started_runner, world0)"
    by blast
  moreover from k2 b
  have "container (fst (snd (Stop (fake_env []) fresh_runner world0))) = None"
    by blast
  ultimately show ?thesis by blast
qed

text \<open>
  Claim C6 as it is stated fails: after a completed \<^verbatim>\<open>Stop()\<close> on a started runner the
  handle is still there, and \<^verbatim>\<open>Start()\<close> fails its assertion.
\<close>

theorem stop_does_not_null_container_counterexample:
  "fst (Stop (fake_env []) started_runner world0) = Inr ()
   \<and> container (fst (snd (Stop (fake_env []) started_runner world0))) = Some 7
   \<and> fst (Start (fake_env []) (fst (snd (Stop (fake_env []) started_runner world0))) world0)
       = Inl AssertionError"
  by (simp add: Stop_held Start_held fixtures)

text \<open>
  Claim C9, as amended. \<^verbatim>\<open>GetEndpoint()\<close> fails its assertion on every runner whose
  endpoint has not been assigned, so on every runner as \<^verbatim>\<open>__init__\<close> returns it, before
  any call of \<^verbatim>\<open>Start()\<close>; \<^verbatim>\<open>Start()\<close> fails its assertion on every runner that holds a
  container handle. Under the preconditions the assertions do not fire: after a
  \<^verbatim>\<open>Start()\<close> that returned normally \<^verbatim>\<open>GetEndpoint()\<close> returns an endpoint, and
  \<^verbatim>\<open>Start()\<close> on a runner holding no handle never raises \<^verbatim>\<open>AssertionError\<close>.
\<close>

theorem precondition_assertions:
  "(init U serving_path kind spec_name = Inr r0 \<longrightarrow> GetEndpoint r0 = Inl AssertionError)
   \<and> (endpoint r = None \<longrightarrow> GetEndpoint r = Inl AssertionError)
   \<and> (container r \<noteq> None \<longrightarrow> Start e r w = (Inl AssertionError, r, w))
   \<and> (fst (Start e r w) = Inr () \<longrightarrow>
        (\<exists>ep. GetEndpoint (fst (snd (Start e r w))) = Inr ep))
   \<and> (container r = None \<longrightarrow> fst (Start e r w) \<noteq> Inl AssertionError)"
proof -
  have "GetEndpoint r0 = Inl AssertionError" if "init U serving_path kind spec_name = Inr r0"
    using init_fresh [OF that] by (simp add: GetEndpoint_def)
  moreover have "GetEndpoint r = Inl AssertionError" if "endpoint r = None"
    using that by (simp add: GetEndpoint_def)
  ultimately show ?thesis
    using Start_held [of r e w] Start_success_endpoint [of e r w] Start_no_assertion [of r e w]
    by blast
qed

theorem precondition_assertions_witness:
  "init sample_db (cps ''/models/my_model/3'') (TensorFlowServing ''tensorflow/serving'')
       (cps ''my_model'') = Inr fresh_runner
   \<and> GetEndpoint fresh_runner = Inl AssertionError
   \<and> Start (fake_env []) started_runner world0 = (Inl AssertionError, started_runner, world0)
   \<and> fst (Start (fake_env []) fresh_runner world0) = Inr ()
   \<and> (\<exists>ep. GetEndpoint (fst (snd (Start (fake_env []) fresh_runner world0))) = Inr ep)
   \<and> fst (Start (fake_env []) fresh_runner world0) \<noteq> Inl AssertionError"
proof -
  let ?k = "TensorFlowServing ''tensorflow/serving''"
  have p: "parse_model_path sample_db (cps ''/models/my_model/3'')
             = Inr (cps ''/models'', cps ''my_model'', 3)"
    by code_simp
  have i: "init sample_db (cps ''/models/my_model/3'') ?k (cps ''my_model'') = Inr fresh_runner"
    by (simp add: init_def p fresh_runner_def)
  have b: "container started_runner \<noteq> None" by (simp add: fixtures)
  have c: "fst (Start (fake_env []) fresh_runner world0) = Inr ()"
    by (simp add: Start_ok [OF fixtures(1) fixtures(8) fixtures(3) fixtures(9)])
  note f = precondition_assertions
             [of sample_db "cps ''/models/my_model/3''" ?k "cps ''my_model''" fresh_runner
                 fresh_runner "fake_env []" world0]
  note s = precondition_assertions
             [of sample_db "cps ''/models/my_model/3''" ?k "cps ''my_model''" fresh_runner
                 started_runner "fake_env []" world0]
  from f i have "GetEndpoint fresh_runner = Inl AssertionError" by blast
  moreover from s b
  have "Start (fake_env []) started_runner world0 = (Inl AssertionError, started_runner, world0)"
    by blast
  moreover from f c
  have "\<exists>ep. GetEndpoint (fst (snd (Start (fake_env []) fresh_runner world0))) = Inr ep"
    by blast
  moreover from f fixtures(1)
  have "fst (Start (fake_env []) fresh_runner world0) \<noteq> Inl AssertionError"
    by blast
  ultimately show ?thesis using i c by blast
qed

text \<open>
  Claim C9 as it is stated fails: \<^verbatim>\<open>Start()\<close> has not completed successfully when it
  raises \<^verbatim>\<open>NotImplementedError\<close> for a binary kind it does not support, and
  \<^verbatim>\<open>GetEndpoint()\<close> then returns \<^verbatim>\<open>localhost:8500\<close> instead of failing its assertion.
\<close>

theorem get_endpoint_after_unsupported_start_counterexample:
  "fst (Start (fake_env []) unsupported_runner world0) = Inl NotImplementedError
   \<and> GetEndpoint (fst (snd (Start (fake_env []) unsupported_runner world0)))
       = Inr (cps ''localhost:8500'')"
proof -
  have "Start (fake_env []) unsupported_runner world0 =
      (Inl NotImplementedError,
       unsupported_runner\<lparr>endpoint := Some (cps ''localhost:'' @ str_nat 8500)\<rparr>, world0)"
    using fixtures(6) fixtures(8) fixtures(7) by (rule Start_unsupported)
  then show ?thesis by (simp add: GetEndpoint_def endpoint_8500)
qed

end
